theory Spec2Isabelle
  imports Complex_Main "HOL-Library.Char_ord" "HOL-Library.List_Lexorder"
    "HOL-Library.Product_Lexorder" "HOL-Library.Multiset"
begin

section \<open>Strings\<close>

text \<open>
  A Python string is modelled by the bytes of its UTF-8 encoding, a \<open>string\<close>: an
  ASCII character is one byte below 128, and no byte of another character is below
  128. Splitting at a comma, replacing an ASCII substring and taking the directory part
  of a path do on these bytes what Python does on the characters. \<^verbatim>\<open>str.strip\<close> and
  \<^verbatim>\<open>str.upper\<close> classify characters: what they do on an ASCII string is written out
  here, and what they do on any other string is taken from the environment below
  (Python's Unicode tables).
\<close>

text \<open>\<^verbatim>\<open>s.isascii()\<close>\<close>

definition isascii :: "string \<Rightarrow> bool" where
  "isascii s = list_all (\<lambda>c. \<not> digit7 c) s"

text \<open>The ASCII white space of \<^verbatim>\<open>str.strip\<close>: the characters 9 to 13, 28 to 31 and 32.\<close>

definition whitespace :: "char list" where
  "whitespace = [CHR 0x09, CHR 0x0A, CHR 0x0B, CHR 0x0C, CHR 0x0D,
                 CHR 0x1C, CHR 0x1D, CHR 0x1E, CHR 0x1F, CHR '' '']"

definition isspace :: "char \<Rightarrow> bool" where
  "isspace c = (c \<in> set whitespace)"

text \<open>\<^verbatim>\<open>s.strip()\<close> on an ASCII string.\<close>

definition ascii_strip :: "string \<Rightarrow> string" where
  "ascii_strip s = rev (dropWhile isspace (rev (dropWhile isspace s)))"

definition upper_char :: "char \<Rightarrow> char" where
  "upper_char c =
     (case map_of (zip ''abcdefghijklmnopqrstuvwxyz'' ''ABCDEFGHIJKLMNOPQRSTUVWXYZ'') c of
        None \<Rightarrow> c
      | Some u \<Rightarrow> u)"

text \<open>\<^verbatim>\<open>s.upper()\<close> on an ASCII string.\<close>

definition ascii_upper :: "string \<Rightarrow> string" where
  "ascii_upper s = map upper_char s"

text \<open>\<^verbatim>\<open>s.split(sep)\<close> for a separator of one character: never the empty list.\<close>

fun split_sep :: "char \<Rightarrow> string \<Rightarrow> string list" where
  "split_sep sep [] = [[]]"
| "split_sep sep (c # cs) =
     (if c = sep then [] # split_sep sep cs
      else (case split_sep sep cs of
              [] \<Rightarrow> [[c]]
            | w # ws \<Rightarrow> (c # w) # ws))"


definition startswith :: "string \<Rightarrow> string \<Rightarrow> bool" where
  "startswith s p = (take (length p) s = p)"

text \<open>
  \<^verbatim>\<open>s.replace(old, new)\<close>: every occurrence of \<open>old\<close>, found from left to right
  without overlap, is replaced. (With an empty \<open>old\<close> Python puts \<open>new\<close> before
  every character and at the end.)
\<close>

function str_replace :: "string \<Rightarrow> string \<Rightarrow> string \<Rightarrow> string" where
  "str_replace old new s =
     (if old = [] then new @ concat (map (\<lambda>c. c # new) s)
      else if s = [] then []
      else if startswith s old then new @ str_replace old new (drop (length old) s)
      else hd s # str_replace old new (tl s))"
  by pat_completeness auto
termination
  by (relation "measure (\<lambda>(old, new, s). length s)") auto

declare str_replace.simps [simp del]

section \<open>The series table and the command line\<close>

definition SGS_SERIES :: "(string \<times> int) list" where
  "SGS_SERIES =
     [(''USD'', 10813), (''EUR'', 21619), (''GBP'', 21623),
      (''JPY'', 21621), (''ARS'', 3549), (''CHF'', 21625)]"

text \<open>The namespace that \<^verbatim>\<open>parse_args\<close> returns.\<close>

record args =
  moedas :: string
  days :: "int option"
  years :: int
  out :: string
  excel :: bool

definition default_args :: args where
  "default_args =
     \<lparr>moedas = ''USD,EUR,GBP,JPY'', days = None, years = 2,
      out = ''data/cotacoes.csv'', excel = False\<rparr>"

section \<open>Errors, dates and the window\<close>

datatype pyerror =
  RuntimeError int
| ValueError
| OverflowError
| KeyError
| FileNotFoundError

text \<open>
  A \<^verbatim>\<open>datetime.date\<close> is its proleptic Gregorian ordinal: 1 is 0001-01-01 and
  3652059 is 9999-12-31. A \<^verbatim>\<open>timedelta\<close> holds at most 999999999 days either way.
  Leaving either range raises \<^verbatim>\<open>OverflowError\<close>.
\<close>

definition date_min :: int where "date_min = 1"
definition date_max :: int where "date_max = 3652059"
definition timedelta_max :: int where "timedelta_max = 999999999"

definition timedelta :: "int \<Rightarrow> pyerror + int" where
  "timedelta n = (if \<bar>n\<bar> \<le> timedelta_max then Inr n else Inl OverflowError)"

definition date_sub :: "int \<Rightarrow> int \<Rightarrow> pyerror + int" where
  "date_sub d n =
     (if date_min \<le> d - n \<and> d - n \<le> date_max then Inr (d - n) else Inl OverflowError)"

text \<open>Lines 61 to 65 of \<^verbatim>\<open>main\<close>: the pair \<open>(start, end)\<close>.\<close>

definition window :: "int \<Rightarrow> int option \<Rightarrow> int \<Rightarrow> pyerror + (int \<times> int)" where
  "window endd ds ys =
     (case timedelta (case ds of Some d \<Rightarrow> d | None \<Rightarrow> 365 * ys) of
        Inl e \<Rightarrow> Inl e
      | Inr n \<Rightarrow> (case date_sub endd n of
                    Inl e \<Rightarrow> Inl e
                  | Inr start \<Rightarrow> Inr (start, endd)))"

section \<open>The environment\<close>

text \<open>
  One element of the JSON list: a dictionary read with \<^verbatim>\<open>item.get\<close>, which gives
  \<open>None\<close> for a missing key and for a JSON null alike. Both fields arrive as strings
  (the source: ``valor vem como string''), so \<^verbatim>\<open>str(val)\<close> is the identity.
\<close>

record item =
  data :: "string option"
  valor :: "string option"

text \<open>
  An HTTP request of \<^verbatim>\<open>fetch_sgs\<close>: the series code in the URL, the two dates of
  the query (sent as DD/MM/YYYY) and the timeout.
\<close>

record request =
  codigo :: int
  dataInicial :: int
  dataFinal :: int
  timeout :: int

datatype response =
  RequestException
| JsonList "item list"
| JsonOther

text \<open>
  What the program takes from outside the repository: the clock, the network (the
  answer to the k-th request of the run), the date parser of
  \<^verbatim>\<open>pd.to_datetime(..., format="%d/%m/%Y", errors="coerce")\<close> on one string
  (\<open>None\<close> is NaT), \<^verbatim>\<open>float\<close> on a string (\<open>None\<close> is \<^verbatim>\<open>ValueError\<close>), the
  floating-point arithmetic on the type \<open>'f\<close> of floats with its NaN, which is also
  how pandas marks a missing value, \<^verbatim>\<open>str.strip\<close> and \<^verbatim>\<open>str.upper\<close> on a string that
  is not ASCII, and what \<^verbatim>\<open>DataFrame.to_excel\<close> raises for a path (\<open>None\<close> when it
  writes the file; pandas raises \<^verbatim>\<open>ValueError\<close> for a path whose extension names no
  spreadsheet format).
\<close>

record 'f env =
  today :: int
  http_get :: "nat \<Rightarrow> request \<Rightarrow> response"
  to_datetime :: "string \<Rightarrow> int option"
  pyfloat :: "string \<Rightarrow> 'f option"
  fdiv :: "'f \<Rightarrow> 'f \<Rightarrow> 'f"
  fsub :: "'f \<Rightarrow> 'f \<Rightarrow> 'f"
  fmul :: "'f \<Rightarrow> 'f \<Rightarrow> 'f"
  fconst :: "int \<Rightarrow> 'f"
  nan :: 'f
  unicode_strip :: "string \<Rightarrow> string"
  unicode_upper :: "string \<Rightarrow> string"
  to_excel :: "string \<Rightarrow> pyerror option"

text \<open>
  \<^verbatim>\<open>s.strip()\<close> and \<^verbatim>\<open>s.upper()\<close>: on an ASCII string as written out above, on any
  other string as the environment has it.
\<close>

definition strip :: "'f env \<Rightarrow> string \<Rightarrow> string" where
  "strip env s = (if isascii s then ascii_strip s else unicode_strip env s)"

definition upper :: "'f env \<Rightarrow> string \<Rightarrow> string" where
  "upper env s = (if isascii s then ascii_upper s else unicode_upper env s)"

text \<open>
  \<^verbatim>\<open>[m.strip().upper() for m in args.moedas.split(",") if m.strip()]\<close>
\<close>

definition parse_moedas :: "'f env \<Rightarrow> string \<Rightarrow> string list" where
  "parse_moedas env s =
     map (\<lambda>m. upper env (strip env m))
       (filter (\<lambda>m. strip env m \<noteq> []) (split_sep CHR '','' s))"

text \<open>\<^verbatim>\<open>[m for m in moedas if m not in SGS_SERIES]\<close>\<close>

definition invalidas :: "string list \<Rightarrow> string list" where
  "invalidas ms = filter (\<lambda>m. map_of SGS_SERIES m = None) ms"

section \<open>Fetching and normalizing\<close>

definition sgs_request :: "int \<Rightarrow> int \<Rightarrow> int \<Rightarrow> request" where
  "sgs_request cod start endd =
     \<lparr>codigo = cod, dataInicial = start, dataFinal = endd, timeout = 20\<rparr>"

text \<open>
  \<^verbatim>\<open>fetch_sgs\<close>, as the k-th request of the run. A transport failure becomes a
  \<^verbatim>\<open>RuntimeError\<close>; a body that is not a list raises \<^verbatim>\<open>ValueError\<close>, which the
  \<^verbatim>\<open>except\<close> clause does not catch.
\<close>

definition fetch_sgs :: "'f env \<Rightarrow> nat \<Rightarrow> int \<Rightarrow> int \<Rightarrow> int \<Rightarrow> pyerror + item list" where
  "fetch_sgs env k cod start endd =
     (case http_get env k (sgs_request cod start endd) of
        RequestException \<Rightarrow> Inl (RuntimeError cod)
      | JsonOther \<Rightarrow> Inl ValueError
      | JsonList d \<Rightarrow> Inr d)"

text \<open>A row of the table; the date is a string until it is parsed.\<close>

record ('d, 'f) quote =
  date :: 'd
  currency :: string
  value_brl :: 'f

record ('d, 'f) quote_row = "('d, 'f) quote" +
  prev_value :: 'f
  pct_change_day :: 'f

text \<open>The inner loop of \<^verbatim>\<open>main\<close> (lines 72 to 85), appending to \<open>rows\<close>.\<close>

fun normalize ::
  "'f env \<Rightarrow> string \<Rightarrow> item list \<Rightarrow> (string, 'f) quote list \<Rightarrow> (string, 'f) quote list" where
  "normalize env moeda [] rows = rows"
| "normalize env moeda (it # its) rows =
     (case data it of
        None \<Rightarrow> normalize env moeda its rows
      | Some dt \<Rightarrow>
          (case valor it of
             None \<Rightarrow> normalize env moeda its rows
           | Some val \<Rightarrow>
               (case pyfloat env (str_replace '','' ''.'' val) of
                  None \<Rightarrow> normalize env moeda its rows
                | Some val_f \<Rightarrow>
                    normalize env moeda its
                      (rows @ [\<lparr>date = dt, currency = moeda, value_brl = val_f\<rparr>]))))"

text \<open>
  The outer loop (lines 68 to 85). \<open>reqs\<close> are the requests issued so far; an
  exception of \<^verbatim>\<open>fetch_sgs\<close> ends the loop.
\<close>

fun fetch_all ::
  "'f env \<Rightarrow> int \<Rightarrow> int \<Rightarrow> string list \<Rightarrow> request list \<Rightarrow> (string, 'f) quote list
     \<Rightarrow> request list \<times> (pyerror + (string, 'f) quote list)" where
  "fetch_all env start endd [] reqs rows = (reqs, Inr rows)"
| "fetch_all env start endd (moeda # rest) reqs rows =
     (case map_of SGS_SERIES moeda of
        None \<Rightarrow> (reqs, Inl KeyError)
      | Some cod \<Rightarrow>
          (case fetch_sgs env (length reqs) cod start endd of
             Inl e \<Rightarrow> (reqs @ [sgs_request cod start endd], Inl e)
           | Inr d \<Rightarrow>
               fetch_all env start endd rest (reqs @ [sgs_request cod start endd])
                 (normalize env moeda d rows)))"

section \<open>The table\<close>

text \<open>
  \<^verbatim>\<open>pd.to_datetime(df["date"], format="%d/%m/%Y", errors="coerce")\<close> followed by
  \<^verbatim>\<open>dropna(subset=["date"])\<close>.
\<close>

definition parse_dates :: "'f env \<Rightarrow> (string, 'f) quote list \<Rightarrow> (int, 'f) quote list" where
  "parse_dates env rows =
     List.map_filter
       (\<lambda>r. map_option (\<lambda>d. \<lparr>date = d, currency = currency r, value_brl = value_brl r\<rparr>)
              (to_datetime env (date r)))
       rows"

text \<open>\<^verbatim>\<open>df.sort_values(["currency", "date"])\<close>: a stable sort on the pair of keys.\<close>

definition sort_values :: "(int, 'f) quote list \<Rightarrow> (int, 'f) quote list" where
  "sort_values rows = sort_key (\<lambda>r. (currency r, date r)) rows"

text \<open>
  \<^verbatim>\<open>df.groupby("currency")["value_brl"].shift(1)\<close>: the row at index \<open>i\<close> gets
  the value of the row before it in its own group, the rows of its currency in table
  order, and the fill value when it is the first of its group.
\<close>

definition groupby_shift :: "'f \<Rightarrow> (int, 'f) quote list \<Rightarrow> 'f list" where
  "groupby_shift fill rows =
     map (\<lambda>i. let grp = filter (\<lambda>r. currency r = currency (rows ! i)) (take i rows)
              in if grp = [] then fill else value_brl (last grp))
       [0..<length rows]"

text \<open>\<^verbatim>\<open>(df["value_brl"] / df["prev_value"] - 1) * 100\<close>, on one row.\<close>

definition pct_change :: "'f env \<Rightarrow> 'f \<Rightarrow> 'f \<Rightarrow> 'f" where
  "pct_change env v p = fmul env (fsub env (fdiv env v p) (fconst env 1)) (fconst env 100)"

text \<open>Assigning \<^verbatim>\<open>df[name]\<close>: a new column goes last, an old one keeps its place.\<close>

definition set_column :: "string \<Rightarrow> string list \<Rightarrow> string list" where
  "set_column name cols = (if name \<in> set cols then cols else cols @ [name])"

record 'f table =
  columns :: "string list"
  body :: "(int, 'f) quote_row list"

text \<open>Lines 91 to 98.\<close>

definition transform :: "'f env \<Rightarrow> (string, 'f) quote list \<Rightarrow> 'f table" where
  "transform env rows =
     (let df = sort_values (parse_dates env rows)
      in \<lparr>columns =
            set_column ''pct_change_day''
              (set_column ''prev_value''
                (set_column ''date'' [''date'', ''currency'', ''value_brl''])),
          body =
            map2 (\<lambda>r p. \<lparr>date = date r, currency = currency r, value_brl = value_brl r,
                         prev_value = p, pct_change_day = pct_change env (value_brl r) p\<rparr>)
              df (groupby_shift (nan env) df)\<rparr>)"

section \<open>Paths and the export\<close>

text \<open>\<^verbatim>\<open>os.path.dirname\<close> (POSIX).\<close>

definition dirname :: "string \<Rightarrow> string" where
  "dirname p =
     (let head = rev (dropWhile (\<lambda>c. c \<noteq> CHR ''/'') (rev p))
      in if head \<noteq> [] \<and> \<not> list_all (\<lambda>c. c = CHR ''/'') head
         then rev (dropWhile (\<lambda>c. c = CHR ''/'') (rev head))
         else head)"

text \<open>
  \<^verbatim>\<open>os.makedirs(name, exist_ok=True)\<close>: the empty name raises
  \<^verbatim>\<open>FileNotFoundError\<close>. The file system is taken to allow every other call, and
  writing the CSV to succeed.
\<close>

definition makedirs :: "string \<Rightarrow> pyerror option" where
  "makedirs name = (if name = [] then Some FileNotFoundError else None)"

datatype message =
  MoedasInvalidas "string list" "string list"
| NenhumDado
| OkLinhas nat string

datatype 'f effect =
  Get request
| Print message
| Makedirs string
| ToCsv string string "'f table"
| ToExcel string "'f table"

datatype ending = SysExit int | Uncaught pyerror | Finished

text \<open>The exit status of the process: an uncaught exception ends Python with 1.\<close>

fun exit_status :: "ending \<Rightarrow> int" where
  "exit_status (SysExit n) = n"
| "exit_status (Uncaught e) = 1"
| "exit_status Finished = 0"

record 'f outcome =
  effects :: "'f effect list"
  ending :: ending

text \<open>Lines 100 to 107, after the effects \<open>pre\<close>.\<close>

definition export :: "'f env \<Rightarrow> args \<Rightarrow> 'f effect list \<Rightarrow> 'f table \<Rightarrow> 'f outcome" where
  "export env a pre df =
     (case makedirs (dirname (out a)) of
        Some e \<Rightarrow> \<lparr>effects = pre, ending = Uncaught e\<rparr>
      | None \<Rightarrow>
          (if excel a
           then (case to_excel env (str_replace ''.csv'' ''.xlsx'' (out a)) of
                   Some e \<Rightarrow>
                     \<lparr>effects = pre @ [Makedirs (dirname (out a)), ToCsv (out a) ''utf-8'' df],
                      ending = Uncaught e\<rparr>
                 | None \<Rightarrow>
                     \<lparr>effects =
                        pre @ [Makedirs (dirname (out a)), ToCsv (out a) ''utf-8'' df,
                               ToExcel (str_replace ''.csv'' ''.xlsx'' (out a)) df,
                               Print (OkLinhas (length (body df)) (out a))],
                      ending = Finished\<rparr>)
           else
             \<lparr>effects =
                pre @ [Makedirs (dirname (out a)), ToCsv (out a) ''utf-8'' df,
                       Print (OkLinhas (length (body df)) (out a))],
              ending = Finished\<rparr>))"

definition main :: "'f env \<Rightarrow> args \<Rightarrow> 'f outcome" where
  "main env a =
     (let ms = parse_moedas env (moedas a) in
      if invalidas ms \<noteq> []
      then \<lparr>effects = [Print (MoedasInvalidas (invalidas ms) (map fst SGS_SERIES))],
            ending = SysExit 1\<rparr>
      else
        (case window (today env) (days a) (years a) of
           Inl e \<Rightarrow> \<lparr>effects = [], ending = Uncaught e\<rparr>
         | Inr (start, endd) \<Rightarrow>
             (case fetch_all env start endd ms [] [] of
                (reqs, Inl e) \<Rightarrow> \<lparr>effects = map Get reqs, ending = Uncaught e\<rparr>
              | (reqs, Inr rows) \<Rightarrow>
                  if rows = []
                  then \<lparr>effects = map Get reqs @ [Print NenhumDado], ending = SysExit 2\<rparr>
                  else export env a (map Get reqs) (transform env rows))))"


section \<open>A sample environment\<close>

text \<open>
  A concrete environment on which the definitions above can be run. Its floats are
  rationals computed without rounding, together with the special values of IEEE 754
  (one zero only); division by zero gives an infinity or NaN as numpy does and never
  raises. Its \<^verbatim>\<open>float\<close> reads plain decimal literals (Python's accepts more: exponents,
  surrounding white space, \<^verbatim>\<open>inf\<close>, \<^verbatim>\<open>nan\<close>), and its date parser reads
  \<^verbatim>\<open>%d/%m/%Y\<close> into the ordinal of the day. Its runs hold ASCII text only, so its
  tables for other text are never read and leave a string as it is; its
  \<^verbatim>\<open>to_excel\<close> writes a path that ends in \<^verbatim>\<open>.xlsx\<close> and raises \<^verbatim>\<open>ValueError\<close> for
  any other.
\<close>

datatype xfloat = Fin rat | PInf | NInf | NaN

fun xdiv :: "xfloat \<Rightarrow> xfloat \<Rightarrow> xfloat" where
  "xdiv (Fin a) (Fin b) =
     (if b = 0 then (if a = 0 then NaN else if 0 < a then PInf else NInf) else Fin (a / b))"
| "xdiv (Fin a) PInf = Fin 0"
| "xdiv (Fin a) NInf = Fin 0"
| "xdiv PInf (Fin b) = (if b < 0 then NInf else PInf)"
| "xdiv NInf (Fin b) = (if b < 0 then PInf else NInf)"
| "xdiv _ _ = NaN"

fun xsub :: "xfloat \<Rightarrow> xfloat \<Rightarrow> xfloat" where
  "xsub (Fin a) (Fin b) = Fin (a - b)"
| "xsub (Fin a) PInf = NInf"
| "xsub (Fin a) NInf = PInf"
| "xsub PInf (Fin b) = PInf"
| "xsub PInf NInf = PInf"
| "xsub NInf (Fin b) = NInf"
| "xsub NInf PInf = NInf"
| "xsub _ _ = NaN"

fun xmul :: "xfloat \<Rightarrow> xfloat \<Rightarrow> xfloat" where
  "xmul (Fin a) (Fin b) = Fin (a * b)"
| "xmul (Fin a) PInf = (if a = 0 then NaN else if 0 < a then PInf else NInf)"
| "xmul (Fin a) NInf = (if a = 0 then NaN else if 0 < a then NInf else PInf)"
| "xmul PInf (Fin b) = (if b = 0 then NaN else if 0 < b then PInf else NInf)"
| "xmul NInf (Fin b) = (if b = 0 then NaN else if 0 < b then NInf else PInf)"
| "xmul PInf PInf = PInf"
| "xmul PInf NInf = NInf"
| "xmul NInf PInf = NInf"
| "xmul NInf NInf = PInf"
| "xmul _ _ = NaN"

definition digit_of :: "char \<Rightarrow> nat option" where
  "digit_of c = map_of (zip ''0123456789'' [0, 1, 2, 3, 4, 5, 6, 7, 8, 9]) c"

fun digits_val :: "nat \<Rightarrow> string \<Rightarrow> nat option" where
  "digits_val acc [] = Some acc"
| "digits_val acc (c # cs) =
     (case digit_of c of None \<Rightarrow> None | Some d \<Rightarrow> digits_val (10 * acc + d) cs)"

definition decimal :: "string \<Rightarrow> xfloat option" where
  "decimal s =
     (let neg = (take 1 s = ''-'');
          digs = (if take 1 s = ''-'' \<or> take 1 s = ''+'' then drop 1 s else s);
          ip = takeWhile (\<lambda>c. c \<noteq> CHR ''.'') digs;
          fp = drop 1 (dropWhile (\<lambda>c. c \<noteq> CHR ''.'') digs)
      in if ip = [] \<and> fp = [] then None
         else (case digits_val 0 ip of
                 None \<Rightarrow> None
               | Some i \<Rightarrow>
                   (case digits_val 0 fp of
                      None \<Rightarrow> None
                    | Some f \<Rightarrow>
                        Some (Fin ((if neg then - 1 else 1)
                                     * (of_nat i + of_nat f / 10 ^ length fp))))))"

definition is_leap :: "nat \<Rightarrow> bool" where
  "is_leap y = (y mod 4 = 0 \<and> (y mod 400 = 0 \<or> y mod 100 \<noteq> 0))"

definition days_in_month :: "nat \<Rightarrow> nat \<Rightarrow> nat" where
  "days_in_month y m =
     (if m = 2 then (if is_leap y then 29 else 28)
      else if m = 4 \<or> m = 6 \<or> m = 9 \<or> m = 11 then 30 else 31)"

definition ymd_ordinal :: "nat \<Rightarrow> nat \<Rightarrow> nat \<Rightarrow> int" where
  "ymd_ordinal y m d =
     int (365 * (y - 1) + (y - 1) div 4 + (y - 1) div 400 - (y - 1) div 100
          + sum_list (take (m - 1) (map (days_in_month y) [1, 2, 3, 4, 5, 6, 7, 8, 9, 10, 11, 12]))
          + d)"

definition strptime_dmy :: "string \<Rightarrow> int option" where
  "strptime_dmy s =
     (case split_sep CHR ''/'' s of
        [ds, ms, ys] \<Rightarrow>
          (if 1 \<le> length ds \<and> length ds \<le> 2 \<and> 1 \<le> length ms \<and> length ms \<le> 2
              \<and> length ys = 4
           then (case (digits_val 0 ds, digits_val 0 ms, digits_val 0 ys) of
                   (Some d, Some m, Some y) \<Rightarrow>
                     (if 1 \<le> y \<and> 1 \<le> m \<and> m \<le> 12 \<and> 1 \<le> d \<and> d \<le> days_in_month y m
                      then Some (ymd_ordinal y m d) else None)
                 | _ \<Rightarrow> None)
           else None)
      | _ \<Rightarrow> None)"

text \<open>The run of 2026-11-03 against the network \<open>net\<close>.\<close>

definition endswith :: "string \<Rightarrow> string \<Rightarrow> bool" where
  "endswith s suffix = startswith (rev s) (rev suffix)"

definition sample_env :: "(nat \<Rightarrow> request \<Rightarrow> response) \<Rightarrow> xfloat env" where
  "sample_env net =
     \<lparr>today = 739923, http_get = net, to_datetime = strptime_dmy, pyfloat = decimal,
      fdiv = xdiv, fsub = xsub, fmul = xmul, fconst = (\<lambda>n. Fin (of_int n)), nan = NaN,
      unicode_strip = (\<lambda>s. s), unicode_upper = (\<lambda>s. s),
      to_excel = (\<lambda>p. if endswith p ''.xlsx'' then None else Some ValueError)\<rparr>"

text \<open>A network that answers every request with the same list.\<close>

definition always :: "item list \<Rightarrow> nat \<Rightarrow> request \<Rightarrow> response" where
  "always its k rq = JsonList its"

definition quote_item :: "string \<Rightarrow> string \<Rightarrow> item" where
  "quote_item d v = \<lparr>data = Some d, valor = Some v\<rparr>"

section \<open>Facts about the string functions\<close>

lemmas text_defs =
  parse_moedas_def strip_def upper_def isascii_def ascii_strip_def ascii_upper_def
  upper_char_def isspace_def whitespace_def













lemma parse_moedas_example: "parse_moedas env ''usd, eur,'' = [''USD'', ''EUR'']"
  by (simp add: text_defs)

lemma export_moedas: "export env (a\<lparr>moedas := s\<rparr>) pre df = export env a pre df"
  by (simp add: export_def split: option.splits)

text \<open>The run depends on the currency list through \<open>parse_moedas\<close> only.\<close>

lemma main_moedas:
  "parse_moedas env s = parse_moedas env s' \<Longrightarrow> main env (a\<lparr>moedas := s\<rparr>) = main env (a\<lparr>moedas := s'\<rparr>)"
  by (simp add: main_def export_moedas Let_def split: sum.splits prod.splits)

section \<open>Validation of the currency codes\<close>

lemma SGS_keys: "fst ` set SGS_SERIES = {''USD'', ''EUR'', ''GBP'', ''JPY'', ''ARS'', ''CHF''}"
  by (simp add: SGS_SERIES_def)

lemma map_fst_SGS: "map fst SGS_SERIES = [''USD'', ''EUR'', ''GBP'', ''JPY'', ''ARS'', ''CHF'']"
  by (simp add: SGS_SERIES_def)

lemma invalidas_eq: "invalidas ms = filter (\<lambda>m. m \<notin> fst ` set SGS_SERIES) ms"
  by (simp add: invalidas_def map_of_eq_None_iff)

lemma invalidas_Nil_iff: "invalidas ms = [] \<longleftrightarrow> set ms \<subseteq> fst ` set SGS_SERIES"
  by (auto simp: invalidas_eq filter_empty_conv)

lemma fetch_all_requests:
  "fetch_all env s e ms reqs rows = (reqs', r) \<Longrightarrow>
   \<exists>new. reqs' = reqs @ new \<and> (\<forall>rq \<in> set new. dataInicial rq = s \<and> dataFinal rq = e)"
proof (induction ms arbitrary: reqs rows)
  case Nil
  then show ?case by simp
next
  case (Cons m ms)
  show ?case
  proof (cases "map_of SGS_SERIES m")
    case None
    with Cons.prems show ?thesis by simp
  next
    case (Some cod)
    show ?thesis
    proof (cases "fetch_sgs env (length reqs) cod s e")
      case (Inl err)
      with Some Cons.prems have "reqs' = reqs @ [sgs_request cod s e]"
        by simp
      then show ?thesis
        by (simp add: sgs_request_def)
    next
      case (Inr d)
      with Some Cons.prems
      have "fetch_all env s e ms (reqs @ [sgs_request cod s e]) (normalize env m d rows) = (reqs', r)"
        by simp
      from Cons.IH [OF this] obtain new where
        "reqs' = (reqs @ [sgs_request cod s e]) @ new"
        "\<forall>rq \<in> set new. dataInicial rq = s \<and> dataFinal rq = e"
        by blast
      then have "reqs' = reqs @ (sgs_request cod s e # new)
          \<and> (\<forall>rq \<in> set (sgs_request cod s e # new). dataInicial rq = s \<and> dataFinal rq = e)"
        by (simp add: sgs_request_def)
      then show ?thesis
        by blast
    qed
  qed
qed

lemma fetch_all_empty:
  "\<forall>k rq. http_get env k rq = JsonList [] \<Longrightarrow> set ms \<subseteq> fst ` set SGS_SERIES \<Longrightarrow>
   snd (fetch_all env s e ms reqs rows) = Inr rows"
proof (induction ms arbitrary: reqs rows)
  case Nil
  then show ?case by simp
next
  case (Cons m ms)
  from Cons.prems(2) obtain cod where cod: "map_of SGS_SERIES m = Some cod"
    by (cases "map_of SGS_SERIES m") (auto simp: map_of_eq_None_iff)
  from Cons.prems(1) have "fetch_sgs env (length reqs) cod s e = Inr []"
    by (simp add: fetch_sgs_def)
  with cod Cons show ?case
    by simp
qed

lemma main_rejects:
  assumes "invalidas (parse_moedas env (moedas a)) \<noteq> []"
  shows "main env a =
    \<lparr>effects = [Print (MoedasInvalidas (invalidas (parse_moedas env (moedas a))) (map fst SGS_SERIES))],
     ending = SysExit 1\<rparr>"
  using assms by (simp add: main_def Let_def)

lemma main_accepts:
  assumes "invalidas (parse_moedas env (moedas a)) = []"
  shows "main env a =
    (case window (today env) (days a) (years a) of
       Inl e \<Rightarrow> \<lparr>effects = [], ending = Uncaught e\<rparr>
     | Inr (start, endd) \<Rightarrow>
         (case fetch_all env start endd (parse_moedas env (moedas a)) [] [] of
            (reqs, Inl e) \<Rightarrow> \<lparr>effects = map Get reqs, ending = Uncaught e\<rparr>
          | (reqs, Inr rows) \<Rightarrow>
              if rows = []
              then \<lparr>effects = map Get reqs @ [Print NenhumDado], ending = SysExit 2\<rparr>
              else export env a (map Get reqs) (transform env rows)))"
  using assms by (simp add: main_def Let_def)

lemma export_ending: "ending (export env a pre df) \<noteq> SysExit n"
  by (simp add: export_def split: option.splits)

lemma export_effects:
  "set (effects (export env a pre df)) \<subseteq>
     set pre \<union> {Makedirs (dirname (out a)), ToCsv (out a) ''utf-8'' df,
       ToExcel (str_replace ''.csv'' ''.xlsx'' (out a)) df,
       Print (OkLinhas (length (body df)) (out a))}"
  by (auto simp: export_def split: option.splits if_splits)

lemma export_invalid:
  "Print (MoedasInvalidas bad keys) \<in> set (effects (export env a pre df)) \<Longrightarrow>
   Print (MoedasInvalidas bad keys) \<in> set pre"
  by (auto simp: export_def split: option.splits if_splits)

text \<open>
  C3: every code of the fixed set USD, EUR, GBP, JPY, ARS, CHF is accepted: when all
  the codes of the list are in the set, the run does not end at the validation (no
  exit with \<^verbatim>\<open>sys.exit(1)\<close>, no message about invalid codes). When some code is outside
  the set, the run prints one message that lists the invalid codes and the valid set
  and ends with exit status 1, and it has issued no network request.
\<close>

theorem validation:
  "fst ` set SGS_SERIES = {''USD'', ''EUR'', ''GBP'', ''JPY'', ''ARS'', ''CHF''}
   \<and> (set (parse_moedas env (moedas a)) \<subseteq> fst ` set SGS_SERIES \<longrightarrow>
        ending (main env a) \<noteq> SysExit 1
        \<and> (\<forall>bad keys. Print (MoedasInvalidas bad keys) \<notin> set (effects (main env a))))
   \<and> (\<not> set (parse_moedas env (moedas a)) \<subseteq> fst ` set SGS_SERIES \<longrightarrow>
        main env a =
          \<lparr>effects =
             [Print (MoedasInvalidas
                (filter (\<lambda>m. m \<notin> fst ` set SGS_SERIES) (parse_moedas env (moedas a)))
                [''USD'', ''EUR'', ''GBP'', ''JPY'', ''ARS'', ''CHF''])],
           ending = SysExit 1\<rparr>
        \<and> exit_status (ending (main env a)) = 1
        \<and> (\<forall>rq. Get rq \<notin> set (effects (main env a))))"
proof (intro conjI impI)
  show "fst ` set SGS_SERIES = {''USD'', ''EUR'', ''GBP'', ''JPY'', ''ARS'', ''CHF''}"
    by (rule SGS_keys)
next
  assume "set (parse_moedas env (moedas a)) \<subseteq> fst ` set SGS_SERIES"
  then have ok: "invalidas (parse_moedas env (moedas a)) = []"
    by (simp add: invalidas_Nil_iff)
  show "ending (main env a) \<noteq> SysExit 1"
    by (simp add: main_accepts [OF ok] export_ending split: sum.splits prod.splits)
  show "\<forall>bad keys. Print (MoedasInvalidas bad keys) \<notin> set (effects (main env a))"
  proof (intro allI notI)
    fix bad keys
    assume "Print (MoedasInvalidas bad keys) \<in> set (effects (main env a))"
    then show False
      by (auto simp: main_accepts [OF ok] split: sum.splits prod.splits if_splits
          dest!: export_invalid)
  qed
next
  assume "\<not> set (parse_moedas env (moedas a)) \<subseteq> fst ` set SGS_SERIES"
  then have rej: "invalidas (parse_moedas env (moedas a)) \<noteq> []"
    by (simp add: invalidas_Nil_iff)
  show m: "main env a =
          \<lparr>effects =
             [Print (MoedasInvalidas
                (filter (\<lambda>m. m \<notin> fst ` set SGS_SERIES) (parse_moedas env (moedas a)))
                [''USD'', ''EUR'', ''GBP'', ''JPY'', ''ARS'', ''CHF''])],
           ending = SysExit 1\<rparr>"
    by (simp only: main_rejects [OF rej] invalidas_eq map_fst_SGS)
  show "exit_status (ending (main env a)) = 1"
    by (simp add: main_rejects [OF rej])
  show "\<forall>rq. Get rq \<notin> set (effects (main env a))"
    by (simp add: main_rejects [OF rej])
qed


lemma parse_moedas_invalid_example: "parse_moedas env ''usd,xyz'' = [''USD'', ''XYZ'']"
  by (simp add: text_defs)

theorem validation_witness:
  "\<not> set (parse_moedas (sample_env (always [])) ''usd,xyz'') \<subseteq> fst ` set SGS_SERIES
   \<and> main (sample_env (always [])) (default_args\<lparr>moedas := ''usd,xyz''\<rparr>) =
       \<lparr>effects =
          [Print (MoedasInvalidas [''XYZ''] [''USD'', ''EUR'', ''GBP'', ''JPY'', ''ARS'', ''CHF''])],
        ending = SysExit 1\<rparr>
   \<and> set (parse_moedas (sample_env (always [])) ''usd, eur,'') \<subseteq> fst ` set SGS_SERIES
   \<and> ending (main (sample_env (always [])) (default_args\<lparr>moedas := ''usd, eur,''\<rparr>)) \<noteq> SysExit 1"
proof -
  note bad = validation
    [where a = "default_args\<lparr>moedas := ''usd,xyz''\<rparr>" and env = "sample_env (always [])"]
  note good = validation
    [where a = "default_args\<lparr>moedas := ''usd, eur,''\<rparr>" and env = "sample_env (always [])"]
  have n: "\<not> set (parse_moedas (sample_env (always [])) ''usd,xyz'') \<subseteq> fst ` set SGS_SERIES"
    by (simp add: parse_moedas_invalid_example SGS_SERIES_def)
  have y: "set (parse_moedas (sample_env (always [])) ''usd, eur,'') \<subseteq> fst ` set SGS_SERIES"
    by (simp add: parse_moedas_example SGS_SERIES_def)
  have f: "filter (\<lambda>m. m \<notin> fst ` set SGS_SERIES) (parse_moedas (sample_env (always [])) ''usd,xyz'') = [''XYZ'']"
    by (simp add: parse_moedas_invalid_example SGS_SERIES_def)
  from bad n have "main (sample_env (always [])) (default_args\<lparr>moedas := ''usd,xyz''\<rparr>) =
       \<lparr>effects =
          [Print (MoedasInvalidas [''XYZ''] [''USD'', ''EUR'', ''GBP'', ''JPY'', ''ARS'', ''CHF''])],
        ending = SysExit 1\<rparr>"
    by (simp add: f)
  moreover from good y
  have "ending (main (sample_env (always [])) (default_args\<lparr>moedas := ''usd, eur,''\<rparr>)) \<noteq> SysExit 1"
    by simp
  ultimately show ?thesis
    using n y by blast
qed

section \<open>The date window\<close>

lemma window_eq:
  "window t ds ys =
     (let n = (case ds of Some d \<Rightarrow> d | None \<Rightarrow> 365 * ys)
      in if \<bar>n\<bar> \<le> 999999999 \<and> 1 \<le> t - n \<and> t - n \<le> 3652059
         then Inr (t - n, t) else Inl OverflowError)"
  by (simp add: window_def timedelta_def date_sub_def date_min_def date_max_def
      timedelta_max_def Let_def)

lemma window_end: "window t ds ys = Inr (s, e) \<Longrightarrow> e = t"
  by (auto simp: window_eq Let_def split: if_splits)

lemma main_requests:
  assumes "Get rq \<in> set (effects (main env a))"
  shows "window (today env) (days a) (years a) = Inr (dataInicial rq, dataFinal rq)"
proof (cases "invalidas (parse_moedas env (moedas a)) = []")
  case False
  with assms show ?thesis
    by (simp add: main_rejects)
next
  case True
  show ?thesis
  proof (cases "window (today env) (days a) (years a)")
    case (Inl e)
    with assms True show ?thesis
      by (simp add: main_accepts)
  next
    case (Inr w)
    obtain s e where w: "w = (s, e)"
      by (cases w)
    obtain reqs r where f: "fetch_all env s e (parse_moedas env (moedas a)) [] [] = (reqs, r)"
      by (cases "fetch_all env s e (parse_moedas env (moedas a)) [] []")
    from fetch_all_requests [OF f]
    have reqs: "\<forall>rq \<in> set reqs. dataInicial rq = s \<and> dataFinal rq = e"
      by simp
    have "set (effects (main env a)) \<subseteq> Get ` set reqs \<union> range Print \<union> range Makedirs
        \<union> {e. \<exists>p c t. e = ToCsv p c t} \<union> {e. \<exists>p t. e = ToExcel p t}"
      using True Inr w f
      by (auto simp: main_accepts export_def split: sum.splits option.splits if_splits)
    with assms have "rq \<in> set reqs"
      by auto
    with reqs Inr w show ?thesis
      by simp
  qed
qed

text \<open>
  C5, amended: the window end is today, read once and used for every request of the
  run. With a day count \<open>d\<close> the start is today minus \<open>d\<close> days whatever the year
  count is, and without one it is today minus 365 times the year count, provided the
  number of days is within 999999999 either way and the start is a date of the years 1
  to 9999. Otherwise there is no window, and a run whose currency codes are all valid
  ends with an uncaught \<^verbatim>\<open>OverflowError\<close> and has done nothing before: no request, no
  message, no file. (A run with an invalid code ends at the validation, which comes
  first.)
\<close>

theorem window_in_range:
  "window t ds ys =
     (let n = (case ds of Some d \<Rightarrow> d | None \<Rightarrow> 365 * ys)
      in if \<bar>n\<bar> \<le> 999999999 \<and> 1 \<le> t - n \<and> t - n \<le> 3652059
         then Inr (t - n, t) else Inl OverflowError)
   \<and> window t (Some d) ys = window t (Some d) ys'
   \<and> (\<forall>rq. Get rq \<in> set (effects (main env a)) \<longrightarrow>
         dataFinal rq = today env
         \<and> window (today env) (days a) (years a) = Inr (dataInicial rq, today env))
   \<and> (invalidas (parse_moedas env (moedas a)) = [] \<longrightarrow>
        (\<forall>e. window (today env) (days a) (years a) = Inl e \<longrightarrow>
           e = OverflowError
           \<and> main env a = \<lparr>effects = [], ending = Uncaught OverflowError\<rparr>))"
proof (intro conjI allI impI)
  show "window t ds ys =
     (let n = (case ds of Some d \<Rightarrow> d | None \<Rightarrow> 365 * ys)
      in if \<bar>n\<bar> \<le> 999999999 \<and> 1 \<le> t - n \<and> t - n \<le> 3652059
         then Inr (t - n, t) else Inl OverflowError)"
    by (rule window_eq)
  show "window t (Some d) ys = window t (Some d) ys'"
    by (simp add: window_eq)
next
  fix rq
  assume "Get rq \<in> set (effects (main env a))"
  then have w: "window (today env) (days a) (years a) = Inr (dataInicial rq, dataFinal rq)"
    by (rule main_requests)
  then show f: "dataFinal rq = today env"
    by (rule window_end)
  from w f show "window (today env) (days a) (years a) = Inr (dataInicial rq, today env)"
    by simp
next
  fix e
  assume ok: "invalidas (parse_moedas env (moedas a)) = []"
    and w: "window (today env) (days a) (years a) = Inl e"
  from w show e: "e = OverflowError"
    by (auto simp: window_eq Let_def split: if_splits)
  from w e show "main env a = \<lparr>effects = [], ending = Uncaught OverflowError\<rparr>"
    by (simp add: main_accepts [OF ok])
qed

lemma main_sample_30:
  "main (sample_env (always [])) (default_args\<lparr>moedas := ''USD'', days := Some 30\<rparr>) =
     \<lparr>effects = [Get \<lparr>codigo = 10813, dataInicial = 739893, dataFinal = 739923, timeout = 20\<rparr>,
                 Print NenhumDado],
      ending = SysExit 2\<rparr>"
  by (simp add: main_def text_defs invalidas_def SGS_SERIES_def window_eq sample_env_def default_args_def
      fetch_sgs_def sgs_request_def always_def)

theorem window_in_range_witness:
  "window 739923 (Some 30) 2 = Inr (739893, 739923)
   \<and> window 739923 (Some 30) 2 = window 739923 (Some 30) 7
   \<and> window 739923 None 2 = Inr (739193, 739923)
   \<and> Get \<lparr>codigo = 10813, dataInicial = 739893, dataFinal = 739923, timeout = 20\<rparr>
       \<in> set (effects (main (sample_env (always []))
                          (default_args\<lparr>moedas := ''USD'', days := Some 30\<rparr>)))
   \<and> window (today (sample_env (always [])))
        (days (default_args\<lparr>moedas := ''USD'', days := Some 30\<rparr>))
        (years (default_args\<lparr>moedas := ''USD'', days := Some 30\<rparr>)) = Inr (739893, 739923)
   \<and> invalidas (parse_moedas (sample_env (always []))
        (moedas (default_args\<lparr>days := Some 1000000\<rparr>))) = []
   \<and> window (today (sample_env (always [])))
        (days (default_args\<lparr>days := Some 1000000\<rparr>))
        (years (default_args\<lparr>days := Some 1000000\<rparr>)) = Inl OverflowError
   \<and> main (sample_env (always [])) (default_args\<lparr>days := Some 1000000\<rparr>) =
       \<lparr>effects = [], ending = Uncaught OverflowError\<rparr>"
proof -
  note t = window_in_range [where t = 739923 and ys = 2 and ys' = 7 and d = 30
      and env = "sample_env (always [])"
      and a = "default_args\<lparr>moedas := ''USD'', days := Some 30\<rparr>"]
  have g: "Get \<lparr>codigo = 10813, dataInicial = 739893, dataFinal = 739923, timeout = 20\<rparr>
       \<in> set (effects (main (sample_env (always []))
                          (default_args\<lparr>moedas := ''USD'', days := Some 30\<rparr>)))"
    by (simp add: main_sample_30)
  from t [where ds = "Some 30"] have a: "window 739923 (Some 30) 2 = Inr (739893, 739923)"
    by simp
  from t [where ds = None] have b: "window 739923 None 2 = Inr (739193, 739923)"
    by simp
  from t [where ds = None] have c: "window 739923 (Some 30) 2 = window 739923 (Some 30) 7"
    by blast
  from t [where ds = None] g
  have "window (today (sample_env (always [])))
        (days (default_args\<lparr>moedas := ''USD'', days := Some 30\<rparr>))
        (years (default_args\<lparr>moedas := ''USD'', days := Some 30\<rparr>))
      = Inr (dataInicial \<lparr>codigo = 10813, dataInicial = 739893, dataFinal = 739923, timeout = 20\<rparr>,
             today (sample_env (always [])))"
    by blast
  then have d: "window (today (sample_env (always [])))
        (days (default_args\<lparr>moedas := ''USD'', days := Some 30\<rparr>))
        (years (default_args\<lparr>moedas := ''USD'', days := Some 30\<rparr>)) = Inr (739893, 739923)"
    by (simp add: sample_env_def)
  note big = window_in_range [where env = "sample_env (always [])"
      and a = "default_args\<lparr>days := Some 1000000\<rparr>",
      THEN conjunct2, THEN conjunct2, THEN conjunct2, rule_format]
  have v: "invalidas (parse_moedas (sample_env (always []))
        (moedas (default_args\<lparr>days := Some 1000000\<rparr>))) = []"
    by (simp add: default_args_def text_defs invalidas_def SGS_SERIES_def)
  have o: "window (today (sample_env (always [])))
        (days (default_args\<lparr>days := Some 1000000\<rparr>))
        (years (default_args\<lparr>days := Some 1000000\<rparr>)) = Inl OverflowError"
    by (simp add: window_eq sample_env_def default_args_def)
  from big [OF v o]
  have m: "main (sample_env (always [])) (default_args\<lparr>days := Some 1000000\<rparr>) =
       \<lparr>effects = [], ending = Uncaught OverflowError\<rparr>"
    by blast
  from a b c d g v o m show ?thesis
    by blast
qed

text \<open>
  The claim as stated fails: with \<^verbatim>\<open>--days 1000000\<close> on 2026-11-03 the start would lie
  before the year 1, and the run ends with \<^verbatim>\<open>OverflowError\<close> instead.
\<close>

theorem window_overflow_counterexample:
  "window 739923 (Some 1000000) 2 = Inl OverflowError
   \<and> window 739923 (Some 1000000) 2 \<noteq> Inr (739923 - 1000000, 739923)
   \<and> main (sample_env (always [])) (default_args\<lparr>days := Some 1000000\<rparr>) =
       \<lparr>effects = [], ending = Uncaught OverflowError\<rparr>"
  by (simp add: main_def text_defs invalidas_def SGS_SERIES_def window_eq sample_env_def default_args_def)

section \<open>Normalizing the records\<close>

lemma str_replace_comma:
  "str_replace '','' ''.'' s = map (\<lambda>c. if c = CHR '','' then CHR ''.'' else c) s"
proof (induction s)
  case Nil
  show ?case by (simp add: str_replace.simps)
next
  case (Cons c cs)
  then show ?case
    by (simp add: str_replace.simps [of "'',''" "''.''" "c # cs"] startswith_def)
qed

lemma normalize_append: "normalize env m its rows = rows @ normalize env m its []"
proof (induction its arbitrary: rows)
  case Nil
  show ?case by simp
next
  case (Cons it its)
  show ?case
  proof (cases "data it")
    case None
    with Cons [of rows] show ?thesis by simp
  next
    case dt: (Some dt)
    show ?thesis
    proof (cases "valor it")
      case None
      with dt Cons [of rows] show ?thesis by simp
    next
      case v: (Some v)
      show ?thesis
      proof (cases "pyfloat env (str_replace '','' ''.'' v)")
        case None
        with dt v Cons [of rows] show ?thesis by simp
      next
        case (Some f)
        let ?r = "\<lparr>date = dt, currency = m, value_brl = f\<rparr>"
        have "normalize env m (it # its) rows = normalize env m its (rows @ [?r])"
          using dt v Some by simp
        also have "\<dots> = (rows @ [?r]) @ normalize env m its []"
          by (rule Cons)
        also have "\<dots> = rows @ normalize env m its ([] @ [?r])"
          using Cons [of "[?r]"] by simp
        also have "normalize env m its ([] @ [?r]) = normalize env m (it # its) []"
          using dt v Some by simp
        finally show ?thesis .
      qed
    qed
  qed
qed

lemma normalize_Cons:
  "normalize env m (it # its) [] = normalize env m [it] [] @ normalize env m its []"
proof -
  have "normalize env m (it # its) [] = normalize env m its (normalize env m [it] [])"
    by (simp split: option.splits)
  then show ?thesis
    using normalize_append [of env m its "normalize env m [it] []"] by simp
qed

lemma normalize_concat:
  "normalize env m its [] = concat (map (\<lambda>it. normalize env m [it] []) its)"
proof (induction its)
  case Nil
  show ?case by simp
next
  case (Cons it its)
  then show ?case
    using normalize_Cons [of env m it its] by simp
qed

text \<open>
  C6: the normalizer treats every raw record on its own and appends what it keeps to
  the rows. It drops the record when the date field or the value field is absent;
  otherwise it replaces the comma of the value by a period and parses the result as a
  float, dropping the record when parsing fails and keeping a row with the raw date,
  the currency and the parsed float when it succeeds. In particular, a record with the
  value \<^verbatim>\<open>5,1234\<close> gives a row whose \<open>value_brl\<close> is the float that \<^verbatim>\<open>5.1234\<close> denotes.
\<close>

theorem normalize_records:
  "normalize env m its rows = rows @ concat (map (\<lambda>it. normalize env m [it] []) its)
   \<and> normalize env m [it] [] =
       (if data it = None \<or> valor it = None then []
        else case pyfloat env (map (\<lambda>c. if c = CHR '','' then CHR ''.'' else c) (the (valor it))) of
               None \<Rightarrow> []
             | Some f \<Rightarrow> [\<lparr>date = the (data it), currency = m, value_brl = f\<rparr>])
   \<and> (pyfloat env ''5.1234'' = Some x \<longrightarrow>
        normalize env m [\<lparr>data = Some d, valor = Some ''5,1234''\<rparr>] []
          = [\<lparr>date = d, currency = m, value_brl = x\<rparr>])"
proof (intro conjI impI)
  show "normalize env m its rows = rows @ concat (map (\<lambda>it. normalize env m [it] []) its)"
    using normalize_append [of env m its rows] normalize_concat [of env m its] by simp
  show "normalize env m [it] [] =
       (if data it = None \<or> valor it = None then []
        else case pyfloat env (map (\<lambda>c. if c = CHR '','' then CHR ''.'' else c) (the (valor it))) of
               None \<Rightarrow> []
             | Some f \<Rightarrow> [\<lparr>date = the (data it), currency = m, value_brl = f\<rparr>])"
    by (auto simp: str_replace_comma split: option.splits)
next
  assume "pyfloat env ''5.1234'' = Some x"
  then show "normalize env m [\<lparr>data = Some d, valor = Some ''5,1234''\<rparr>] []
          = [\<lparr>date = d, currency = m, value_brl = x\<rparr>]"
    by (simp add: str_replace_comma)
qed

lemma decimal_example: "decimal ''5.1234'' = Some (Fin (51234 / 10000))"
  by (simp add: decimal_def digit_of_def)

theorem normalize_records_witness:
  "pyfloat (sample_env (always [])) ''5.1234'' = Some (Fin (51234 / 10000))
   \<and> normalize (sample_env (always [])) ''USD''
        [\<lparr>data = Some ''03/11/2026'', valor = Some ''5,1234''\<rparr>] []
       = [\<lparr>date = ''03/11/2026'', currency = ''USD'', value_brl = Fin (51234 / 10000)\<rparr>]
   \<and> normalize (sample_env (always [])) ''USD''
        [\<lparr>data = None, valor = Some ''5,1234''\<rparr>,
         \<lparr>data = Some ''03/11/2026'', valor = None\<rparr>,
         \<lparr>data = Some ''03/11/2026'', valor = Some ''5,12x''\<rparr>] [] = []"
proof -
  let ?env = "sample_env (always [])"
  have p: "pyfloat ?env ''5.1234'' = Some (Fin (51234 / 10000))"
    by (simp add: sample_env_def decimal_example)
  from normalize_records
    [where env = ?env and m = "''USD''" and x = "Fin (51234 / 10000)" and d = "''03/11/2026''"] p
  have a: "normalize ?env ''USD'' [\<lparr>data = Some ''03/11/2026'', valor = Some ''5,1234''\<rparr>] []
       = [\<lparr>date = ''03/11/2026'', currency = ''USD'', value_brl = Fin (51234 / 10000)\<rparr>]"
    by blast
  have q: "pyfloat ?env ''5.12x'' = None"
    by (simp add: sample_env_def decimal_def digit_of_def)
  have b: "normalize ?env ''USD''
        [\<lparr>data = None, valor = Some ''5,1234''\<rparr>,
         \<lparr>data = Some ''03/11/2026'', valor = None\<rparr>,
         \<lparr>data = Some ''03/11/2026'', valor = Some ''5,12x''\<rparr>] [] = []"
    by (simp add: q str_replace_comma)
  from p a b show ?thesis
    by blast
qed

section \<open>The empty table\<close>

lemmas run_defs =
  main_def export_def makedirs_def dirname_def text_defs invalidas_def SGS_SERIES_def window_eq
  sample_env_def default_args_def fetch_sgs_def sgs_request_def always_def quote_item_def
  str_replace_comma decimal_def digit_of_def

lemma main_no_rows:
  assumes "invalidas (parse_moedas env (moedas a)) = []"
    and "window (today env) (days a) (years a) = Inr (start, endd)"
    and "snd (fetch_all env start endd (parse_moedas env (moedas a)) [] []) = Inr []"
  shows "main env a =
    \<lparr>effects = map Get (fst (fetch_all env start endd (parse_moedas env (moedas a)) [] []))
       @ [Print NenhumDado],
     ending = SysExit 2\<rparr>"
proof -
  obtain reqs r where f: "fetch_all env start endd (parse_moedas env (moedas a)) [] [] = (reqs, r)"
    by (cases "fetch_all env start endd (parse_moedas env (moedas a)) [] []")
  with assms(3) have "r = Inr []"
    by simp
  with f assms(1,2) show ?thesis
    by (simp add: main_accepts)
qed

text \<open>
  C1, amended: when no row is left after normalization (the check of \<^verbatim>\<open>main\<close> stands
  before the dates are parsed), the run prints the no-data message after its requests,
  ends with exit status 2 and neither creates a directory nor writes a CSV or a
  spreadsheet. In particular this is so when every fetch returns the empty list.
\<close>

theorem no_rows_exit:
  assumes "invalidas (parse_moedas env (moedas a)) = []"
    and "window (today env) (days a) (years a) = Inr (start, endd)"
    and "snd (fetch_all env start endd (parse_moedas env (moedas a)) [] []) = Inr []
         \<or> (\<forall>k rq. http_get env k rq = JsonList [])"
  shows "ending (main env a) = SysExit 2
    \<and> exit_status (ending (main env a)) = 2
    \<and> effects (main env a) =
        map Get (fst (fetch_all env start endd (parse_moedas env (moedas a)) [] []))
          @ [Print NenhumDado]
    \<and> (\<forall>p. Makedirs p \<notin> set (effects (main env a)))
    \<and> (\<forall>p c t. ToCsv p c t \<notin> set (effects (main env a)))
    \<and> (\<forall>p t. ToExcel p t \<notin> set (effects (main env a)))"
proof -
  have "snd (fetch_all env start endd (parse_moedas env (moedas a)) [] []) = Inr []"
    using assms(1,3) fetch_all_empty [of env "parse_moedas env (moedas a)" start endd "[]" "[]"]
    by (auto simp: invalidas_Nil_iff)
  from main_no_rows [OF assms(1,2) this] show ?thesis
    by auto
qed

text \<open>
  The claim as stated fails for a table that is empty only after date parsing: one
  record whose date is not in the format DD/MM/YYYY survives normalization, is dropped
  with its unparsed date, and the run writes a CSV with no row and ends with status 0.
\<close>

theorem unparsed_dates_counterexample:
  "normalize (sample_env (always [quote_item ''2026-11-03'' ''5,0''])) ''USD''
      [quote_item ''2026-11-03'' ''5,0''] []
     = [\<lparr>date = ''2026-11-03'', currency = ''USD'', value_brl = Fin 5\<rparr>]
   \<and> parse_dates (sample_env (always [quote_item ''2026-11-03'' ''5,0'']))
       [\<lparr>date = ''2026-11-03'', currency = ''USD'', value_brl = Fin 5\<rparr>] = []
   \<and> main (sample_env (always [quote_item ''2026-11-03'' ''5,0'']))
       (default_args\<lparr>moedas := ''USD''\<rparr>) =
       \<lparr>effects =
          [Get \<lparr>codigo = 10813, dataInicial = 739193, dataFinal = 739923, timeout = 20\<rparr>,
           Makedirs ''data'',
           ToCsv ''data/cotacoes.csv'' ''utf-8''
             \<lparr>columns = [''date'', ''currency'', ''value_brl'', ''prev_value'', ''pct_change_day''],
              body = []\<rparr>,
           Print (OkLinhas 0 ''data/cotacoes.csv'')],
        ending = Finished\<rparr>
   \<and> exit_status (ending (main (sample_env (always [quote_item ''2026-11-03'' ''5,0'']))
       (default_args\<lparr>moedas := ''USD''\<rparr>))) = 0"
  by (simp add: run_defs transform_def parse_dates_def sort_values_def groupby_shift_def
      set_column_def strptime_dmy_def List.map_filter_simps)


theorem no_rows_exit_witness:
  "invalidas (parse_moedas (sample_env (always [])) (moedas default_args)) = []
   \<and> window (today (sample_env (always []))) (days default_args) (years default_args)
       = Inr (739193, 739923)
   \<and> ending (main (sample_env (always [])) default_args) = SysExit 2
   \<and> exit_status (ending (main (sample_env (always [])) default_args)) = 2
   \<and> snd (fetch_all (sample_env (always [\<lparr>data = Some ''03/11/2026'', valor = None\<rparr>]))
            739193 739923
            (parse_moedas (sample_env (always [\<lparr>data = Some ''03/11/2026'', valor = None\<rparr>]))
               (moedas default_args)) [] []) = Inr []
   \<and> ending (main (sample_env (always [\<lparr>data = Some ''03/11/2026'', valor = None\<rparr>]))
                default_args) = SysExit 2"
proof -
  let ?e1 = "sample_env (always [])"
  let ?e2 = "sample_env (always [\<lparr>data = Some ''03/11/2026'', valor = None\<rparr>])"
  have p: "parse_moedas env (moedas default_args) = [''USD'', ''EUR'', ''GBP'', ''JPY'']"
    for env :: "xfloat env"
    by (simp add: default_args_def text_defs)
  have v: "invalidas (parse_moedas env (moedas default_args)) = []" for env :: "xfloat env"
    by (simp add: p invalidas_def SGS_SERIES_def)
  have w1: "window (today ?e1) (days default_args) (years default_args) = Inr (739193, 739923)"
    by (simp add: window_eq sample_env_def default_args_def)
  have w2: "window (today ?e2) (days default_args) (years default_args) = Inr (739193, 739923)"
    by (simp add: window_eq sample_env_def default_args_def)
  have h1: "snd (fetch_all ?e1 739193 739923 (parse_moedas ?e1 (moedas default_args)) [] []) = Inr []
      \<or> (\<forall>k rq. http_get ?e1 k rq = JsonList [])"
    by (simp add: sample_env_def always_def)
  have f2: "snd (fetch_all ?e2 739193 739923 (parse_moedas ?e2 (moedas default_args)) [] []) = Inr []"
    by (simp add: p SGS_SERIES_def fetch_sgs_def sample_env_def always_def)
  then have h2: "snd (fetch_all ?e2 739193 739923 (parse_moedas ?e2 (moedas default_args)) [] []) = Inr []
      \<or> (\<forall>k rq. http_get ?e2 k rq = JsonList [])"
    by (rule disjI1)
  from no_rows_exit [OF v w1 h1] no_rows_exit [OF v w2 h2] v [of ?e1] w1 f2 show ?thesis
    by blast
qed

section \<open>The table: previous value and daily change\<close>

lemma length_groupby_shift: "length (groupby_shift fill rows) = length rows"
  by (simp add: groupby_shift_def)

lemma groupby_shift_nth:
  "i < length rows \<Longrightarrow>
   groupby_shift fill rows ! i =
     (if filter (\<lambda>r. currency r = currency (rows ! i)) (take i rows) = [] then fill
      else value_brl (last (filter (\<lambda>r. currency r = currency (rows ! i)) (take i rows))))"
  by (simp add: groupby_shift_def Let_def)

lemma length_body_transform:
  "length (body (transform env rows)) = length (parse_dates env rows)"
  by (simp add: transform_def Let_def sort_values_def length_groupby_shift)

lemma body_transform_nth:
  assumes "i < length (parse_dates env rows)"
  shows "body (transform env rows) ! i =
    (let df = sort_values (parse_dates env rows); r = df ! i; p = groupby_shift (nan env) df ! i
     in \<lparr>date = date r, currency = currency r, value_brl = value_brl r,
         prev_value = p, pct_change_day = pct_change env (value_brl r) p\<rparr>)"
  using assms by (simp add: transform_def Let_def sort_values_def length_groupby_shift)

lemma sorted_sort_values: "sorted (map (\<lambda>r. (currency r, date r)) (sort_values rows))"
  by (simp add: sort_values_def)

text \<open>In a table sorted by currency first, the rows of one currency stand together.\<close>

lemma sorted_currency_mono:
  assumes "sorted (map (\<lambda>r. (currency r, date r)) df)" and "j \<le> i" and "i < length df"
  shows "currency (df ! j) \<le> currency (df ! i)"
proof -
  from assms have "map (\<lambda>r. (currency r, date r)) df ! j \<le> map (\<lambda>r. (currency r, date r)) df ! i"
    by (intro sorted_nth_mono) simp_all
  with assms show ?thesis
    by (auto simp: less_le)
qed

lemma group_start:
  assumes "sorted (map (\<lambda>r. (currency r, date r)) df)" and "i < length df"
    and "i = 0 \<or> currency (df ! (i - 1)) \<noteq> currency (df ! i)"
  shows "filter (\<lambda>r. currency r = currency (df ! i)) (take i df) = []"
proof (cases "i = 0")
  case True
  then show ?thesis by simp
next
  case False
  with assms(3) have ne: "currency (df ! (i - 1)) \<noteq> currency (df ! i)"
    by simp
  have "currency (df ! j) \<noteq> currency (df ! i)" if "j < i" for j
  proof -
    from that have "currency (df ! j) \<le> currency (df ! (i - 1))"
      using assms(1,2) by (intro sorted_currency_mono) simp_all
    moreover have "currency (df ! (i - 1)) \<le> currency (df ! i)"
      using assms(1,2) by (intro sorted_currency_mono) simp_all
    ultimately show ?thesis
      using ne by auto
  qed
  then show ?thesis
    using assms(2) by (auto simp: filter_empty_conv in_set_conv_nth)
qed

lemma group_next:
  assumes "i < length df" and "0 < i" and "currency (df ! (i - 1)) = currency (df ! i)"
  shows "filter (\<lambda>r. currency r = currency (df ! i)) (take i df) \<noteq> []"
    and "last (filter (\<lambda>r. currency r = currency (df ! i)) (take i df)) = df ! (i - 1)"
proof -
  from assms(1,2) have "take i df = take (i - 1) df @ [df ! (i - 1)]"
    using take_Suc_conv_app_nth [of "i - 1" df] by simp
  with assms(3) have
    "filter (\<lambda>r. currency r = currency (df ! i)) (take i df) =
     filter (\<lambda>r. currency r = currency (df ! i)) (take (i - 1) df) @ [df ! (i - 1)]"
    by simp
  then show "filter (\<lambda>r. currency r = currency (df ! i)) (take i df) \<noteq> []"
    and "last (filter (\<lambda>r. currency r = currency (df ! i)) (take i df)) = df ! (i - 1)"
    by simp_all
qed

lemma transform_fields:
  assumes "i < length (parse_dates env rows)"
  shows "currency (body (transform env rows) ! i) = currency (sort_values (parse_dates env rows) ! i)"
    and "date (body (transform env rows) ! i) = date (sort_values (parse_dates env rows) ! i)"
    and "value_brl (body (transform env rows) ! i) = value_brl (sort_values (parse_dates env rows) ! i)"
    and "prev_value (body (transform env rows) ! i)
          = groupby_shift (nan env) (sort_values (parse_dates env rows)) ! i"
    and "pct_change_day (body (transform env rows) ! i)
          = pct_change env (value_brl (body (transform env rows) ! i))
              (prev_value (body (transform env rows) ! i))"
  using assms by (simp_all add: body_transform_nth Let_def)

lemma map_key_transform:
  "map (\<lambda>r. (currency r, date r)) (body (transform env rows))
   = map (\<lambda>r. (currency r, date r)) (sort_values (parse_dates env rows))"
  by (rule nth_equalityI)
    (simp_all add: length_body_transform sort_values_def transform_fields)

lemma map_triple_transform:
  "map (\<lambda>r. (date r, currency r, value_brl r)) (body (transform env rows))
   = map (\<lambda>r. (date r, currency r, value_brl r)) (sort_values (parse_dates env rows))"
  by (rule nth_equalityI)
    (simp_all add: length_body_transform sort_values_def transform_fields)


text \<open>
  C4: the final table holds the parsed rows sorted ascending by (currency, date). In
  it the \<open>prev_value\<close> of a row is the \<open>value_brl\<close> of the row just before it when
  that row has the same currency, and is absent (NaN) otherwise, that is for the first
  row of each currency group: a row whose predecessor has another currency has no
  earlier row of its own currency at all. So \<open>prev_value\<close> never comes from a row of a
  different currency, in whatever order the raw rows arrive.
\<close>

theorem prev_value_within_group:
  "(let T = body (transform env rows) in
      sorted (map (\<lambda>r. (currency r, date r)) T)
      \<and> mset (map (\<lambda>r. (date r, currency r, value_brl r)) T)
          = mset (map (\<lambda>r. (date r, currency r, value_brl r)) (parse_dates env rows))
      \<and> (\<forall>i < length T.
            prev_value (T ! i) =
              (if 0 < i \<and> currency (T ! (i - 1)) = currency (T ! i)
               then value_brl (T ! (i - 1)) else nan env)
            \<and> ((\<forall>j < i. currency (T ! j) \<noteq> currency (T ! i))
                 \<longleftrightarrow> (i = 0 \<or> currency (T ! (i - 1)) \<noteq> currency (T ! i)))))"
proof -
  let ?T = "body (transform env rows)"
  let ?df = "sort_values (parse_dates env rows)"
  have len: "length ?df = length (parse_dates env rows)"
    by (simp add: sort_values_def)
  have srt: "sorted (map (\<lambda>r. (currency r, date r)) ?df)"
    by (rule sorted_sort_values)
  have 1: "sorted (map (\<lambda>r. (currency r, date r)) ?T)"
    by (simp only: map_key_transform srt)
  have "mset (map (\<lambda>r. (date r, currency r, value_brl r)) ?df)
      = mset (map (\<lambda>r. (date r, currency r, value_brl r)) (parse_dates env rows))"
    by (simp add: sort_values_def)
  then have 2: "mset (map (\<lambda>r. (date r, currency r, value_brl r)) ?T)
      = mset (map (\<lambda>r. (date r, currency r, value_brl r)) (parse_dates env rows))"
    by (simp only: map_triple_transform)
  have 3: "prev_value (?T ! i) =
              (if 0 < i \<and> currency (?T ! (i - 1)) = currency (?T ! i)
               then value_brl (?T ! (i - 1)) else nan env)
            \<and> ((\<forall>j < i. currency (?T ! j) \<noteq> currency (?T ! i))
                 \<longleftrightarrow> (i = 0 \<or> currency (?T ! (i - 1)) \<noteq> currency (?T ! i)))"
    if "i < length ?T" for i
  proof -
    from that have i: "i < length (parse_dates env rows)"
      by (simp add: length_body_transform)
    then have i': "i < length ?df"
      by (simp add: len)
    have cur: "currency (?T ! j) = currency (?df ! j)" if "j \<le> i" for j
      using that i by (simp add: transform_fields)
    have val: "value_brl (?T ! j) = value_brl (?df ! j)" if "j \<le> i" for j
      using that i by (simp add: transform_fields)
    have prev: "prev_value (?T ! i) =
      (if filter (\<lambda>r. currency r = currency (?df ! i)) (take i ?df) = [] then nan env
       else value_brl (last (filter (\<lambda>r. currency r = currency (?df ! i)) (take i ?df))))"
      using i i' by (simp add: transform_fields groupby_shift_nth)
    show ?thesis
    proof (cases "0 < i \<and> currency (?df ! (i - 1)) = currency (?df ! i)")
      case True
      then have a: "0 < i" and b: "currency (?df ! (i - 1)) = currency (?df ! i)"
        by simp_all
      from a have "i - 1 < i"
        by simp
      with b have "\<not> (\<forall>j < i. currency (?T ! j) \<noteq> currency (?T ! i))"
        using cur [of "i - 1"] cur [of i] by auto
      moreover have "prev_value (?T ! i) = value_brl (?T ! (i - 1))"
        using group_next [OF i' a b] prev val [of "i - 1"] by simp
      ultimately show ?thesis
        using True cur [of "i - 1"] cur [of i] by simp
    next
      case False
      then have st: "i = 0 \<or> currency (?df ! (i - 1)) \<noteq> currency (?df ! i)"
        by auto
      from group_start [OF srt i' st]
      have emp: "filter (\<lambda>r. currency r = currency (?df ! i)) (take i ?df) = []" .
      have "currency (?T ! j) \<noteq> currency (?T ! i)" if "j < i" for j
      proof -
        from that i' have "?df ! j \<in> set (take i ?df)"
          by (auto simp: in_set_conv_nth intro!: exI [of _ j])
        with emp have "currency (?df ! j) \<noteq> currency (?df ! i)"
          by (auto simp: filter_empty_conv)
        with that show ?thesis
          using cur [of j] cur [of i] by simp
      qed
      moreover have "prev_value (?T ! i) = nan env"
        using prev emp by simp
      ultimately show ?thesis
        using False st cur [of "i - 1"] cur [of i] by auto
    qed
  qed
  from 1 2 3 show ?thesis
    unfolding Let_def by blast
qed

lemmas table_defs =
  transform_def parse_dates_def sort_values_def groupby_shift_def set_column_def
  strptime_dmy_def ymd_ordinal_def days_in_month_def is_leap_def digit_of_def
  pct_change_def sample_env_def List.map_filter_simps Let_def

lemma interleaved_table:
  "body (transform (sample_env (always []))
     [\<lparr>date = ''03/11/2026'', currency = ''USD'', value_brl = Fin 5\<rparr>,
      \<lparr>date = ''02/11/2026'', currency = ''EUR'', value_brl = Fin 8\<rparr>,
      \<lparr>date = ''02/11/2026'', currency = ''USD'', value_brl = Fin 4\<rparr>,
      \<lparr>date = ''03/11/2026'', currency = ''EUR'', value_brl = Fin 10\<rparr>])
   = [\<lparr>date = 739922, currency = ''EUR'', value_brl = Fin 8,
        prev_value = NaN, pct_change_day = NaN\<rparr>,
      \<lparr>date = 739923, currency = ''EUR'', value_brl = Fin 10,
        prev_value = Fin 8, pct_change_day = Fin 25\<rparr>,
      \<lparr>date = 739922, currency = ''USD'', value_brl = Fin 4,
        prev_value = NaN, pct_change_day = NaN\<rparr>,
      \<lparr>date = 739923, currency = ''USD'', value_brl = Fin 5,
        prev_value = Fin 4, pct_change_day = Fin 25\<rparr>]"
  by (simp add: table_defs)


theorem prev_value_within_group_witness:
  "(2::nat) < length (body (transform (sample_env (always []))
     [\<lparr>date = ''03/11/2026'', currency = ''USD'', value_brl = Fin 5\<rparr>,
      \<lparr>date = ''02/11/2026'', currency = ''EUR'', value_brl = Fin 8\<rparr>,
      \<lparr>date = ''02/11/2026'', currency = ''USD'', value_brl = Fin 4\<rparr>,
      \<lparr>date = ''03/11/2026'', currency = ''EUR'', value_brl = Fin 10\<rparr>]))
   \<and> prev_value (body (transform (sample_env (always []))
     [\<lparr>date = ''03/11/2026'', currency = ''USD'', value_brl = Fin 5\<rparr>,
      \<lparr>date = ''02/11/2026'', currency = ''EUR'', value_brl = Fin 8\<rparr>,
      \<lparr>date = ''02/11/2026'', currency = ''USD'', value_brl = Fin 4\<rparr>,
      \<lparr>date = ''03/11/2026'', currency = ''EUR'', value_brl = Fin 10\<rparr>]) ! 2) = NaN
   \<and> prev_value (body (transform (sample_env (always []))
     [\<lparr>date = ''03/11/2026'', currency = ''USD'', value_brl = Fin 5\<rparr>,
      \<lparr>date = ''02/11/2026'', currency = ''EUR'', value_brl = Fin 8\<rparr>,
      \<lparr>date = ''02/11/2026'', currency = ''USD'', value_brl = Fin 4\<rparr>,
      \<lparr>date = ''03/11/2026'', currency = ''EUR'', value_brl = Fin 10\<rparr>]) ! 3) = Fin 4"
proof -
  let ?rows = "[\<lparr>date = ''03/11/2026'', currency = ''USD'', value_brl = Fin 5\<rparr>,
      \<lparr>date = ''02/11/2026'', currency = ''EUR'', value_brl = Fin 8\<rparr>,
      \<lparr>date = ''02/11/2026'', currency = ''USD'', value_brl = Fin 4\<rparr>,
      \<lparr>date = ''03/11/2026'', currency = ''EUR'', value_brl = Fin 10\<rparr>]"
  let ?T = "body (transform (sample_env (always [])) ?rows)"
  note t = prev_value_within_group [where env = "sample_env (always [])" and rows = ?rows,
      unfolded Let_def, THEN conjunct2, THEN conjunct2, rule_format]
  have len: "length ?T = 4"
    by (simp add: interleaved_table)
  have c2: "currency (?T ! 1) \<noteq> currency (?T ! 2)"
    by (simp add: interleaved_table)
  have c3: "currency (?T ! 2) = currency (?T ! 3)" and v: "value_brl (?T ! 2) = Fin 4"
    by (simp_all add: interleaved_table)
  have n: "nan (sample_env (always [])) = NaN"
    by (simp add: sample_env_def)
  from t [of 2] len c2 n have "prev_value (?T ! 2) = NaN"
    by simp
  moreover from t [of 3] len c3 v have "prev_value (?T ! 3) = Fin 4"
    by simp
  ultimately show ?thesis
    using len by simp
qed

text \<open>
  C2, amended: for every row of the final table \<open>pct_change_day\<close> is
  \<open>(value_brl / prev_value - 1) * 100\<close>, computed in the floating-point arithmetic from
  the row's own \<open>value_brl\<close> and \<open>prev_value\<close> without any test of the divisor. It
  is absent (NaN) whenever \<open>prev_value\<close> is absent (NaN), because NaN propagates
  through the division, the subtraction and the multiplication.
\<close>

theorem pct_change_day_formula:
  "\<forall>r \<in> set (body (transform env rows)).
      pct_change_day r =
        fmul env (fsub env (fdiv env (value_brl r) (prev_value r)) (fconst env 1)) (fconst env 100)
      \<and> ((\<forall>x. fdiv env x (nan env) = nan env) \<and> (\<forall>y. fsub env (nan env) y = nan env)
           \<and> (\<forall>y. fmul env (nan env) y = nan env)
          \<longrightarrow> prev_value r = nan env \<longrightarrow> pct_change_day r = nan env)"
proof
  fix r
  assume "r \<in> set (body (transform env rows))"
  then obtain i where i: "i < length (body (transform env rows))"
    and r: "r = body (transform env rows) ! i"
    by (auto simp: in_set_conv_nth)
  from i have "i < length (parse_dates env rows)"
    by (simp add: length_body_transform)
  then have f: "pct_change_day r =
      fmul env (fsub env (fdiv env (value_brl r) (prev_value r)) (fconst env 1)) (fconst env 100)"
    unfolding r by (simp add: transform_fields(5) pct_change_def)
  then show "pct_change_day r =
        fmul env (fsub env (fdiv env (value_brl r) (prev_value r)) (fconst env 1)) (fconst env 100)
      \<and> ((\<forall>x. fdiv env x (nan env) = nan env) \<and> (\<forall>y. fsub env (nan env) y = nan env)
           \<and> (\<forall>y. fmul env (nan env) y = nan env)
          \<longrightarrow> prev_value r = nan env \<longrightarrow> pct_change_day r = nan env)"
    by simp
qed

lemma xfloat_nan_absorbs:
  "xdiv x NaN = NaN" "xsub NaN y = NaN" "xmul NaN y = NaN"
  by (cases x; simp) simp_all

theorem pct_change_day_formula_witness:
  "\<lparr>date = 739923, currency = ''USD'', value_brl = Fin 5, prev_value = Fin 4,
     pct_change_day = Fin 25\<rparr>
     \<in> set (body (transform (sample_env (always []))
         [\<lparr>date = ''03/11/2026'', currency = ''USD'', value_brl = Fin 5\<rparr>,
          \<lparr>date = ''02/11/2026'', currency = ''EUR'', value_brl = Fin 8\<rparr>,
          \<lparr>date = ''02/11/2026'', currency = ''USD'', value_brl = Fin 4\<rparr>,
          \<lparr>date = ''03/11/2026'', currency = ''EUR'', value_brl = Fin 10\<rparr>]))
   \<and> xmul (xsub (xdiv (Fin 5) (Fin 4)) (Fin 1)) (Fin 100) = Fin 25
   \<and> \<lparr>date = 739922, currency = ''USD'', value_brl = Fin 4, prev_value = NaN,
       pct_change_day = NaN\<rparr>
     \<in> set (body (transform (sample_env (always []))
         [\<lparr>date = ''03/11/2026'', currency = ''USD'', value_brl = Fin 5\<rparr>,
          \<lparr>date = ''02/11/2026'', currency = ''EUR'', value_brl = Fin 8\<rparr>,
          \<lparr>date = ''02/11/2026'', currency = ''USD'', value_brl = Fin 4\<rparr>,
          \<lparr>date = ''03/11/2026'', currency = ''EUR'', value_brl = Fin 10\<rparr>]))
   \<and> xmul (xsub (xdiv (Fin 4) NaN) (Fin 1)) (Fin 100) = NaN"
proof -
  let ?env = "sample_env (always [])"
  let ?rows = "[\<lparr>date = ''03/11/2026'', currency = ''USD'', value_brl = Fin 5\<rparr>,
      \<lparr>date = ''02/11/2026'', currency = ''EUR'', value_brl = Fin 8\<rparr>,
      \<lparr>date = ''02/11/2026'', currency = ''USD'', value_brl = Fin 4\<rparr>,
      \<lparr>date = ''03/11/2026'', currency = ''EUR'', value_brl = Fin 10\<rparr>]"
  let ?r1 = "\<lparr>date = 739923, currency = ''USD'', value_brl = Fin 5, prev_value = Fin 4,
     pct_change_day = Fin 25\<rparr>"
  let ?r0 = "\<lparr>date = 739922, currency = ''USD'', value_brl = Fin 4, prev_value = NaN,
     pct_change_day = NaN\<rparr>"
  note t = pct_change_day_formula [where env = ?env and rows = ?rows, rule_format]
  have m1: "?r1 \<in> set (body (transform ?env ?rows))"
    and m0: "?r0 \<in> set (body (transform ?env ?rows))"
    by (simp_all add: interleaved_table)
  have ops: "fdiv ?env = xdiv" "fsub ?env = xsub" "fmul ?env = xmul"
    "fconst ?env = (\<lambda>n. Fin (of_int n))" "nan ?env = NaN"
    by (simp_all add: sample_env_def)
  have ab: "(\<forall>x. fdiv ?env x (nan ?env) = nan ?env) \<and> (\<forall>y. fsub ?env (nan ?env) y = nan ?env)
           \<and> (\<forall>y. fmul ?env (nan ?env) y = nan ?env)"
    by (simp add: ops xfloat_nan_absorbs)
  from t [OF m1, THEN conjunct1]
  have a: "xmul (xsub (xdiv (Fin 5) (Fin 4)) (Fin 1)) (Fin 100) = Fin 25"
    by (simp add: ops)
  from t [OF m0, THEN conjunct2] ab have "pct_change_day ?r0 = nan ?env"
    by (simp add: ops)
  with t [OF m0, THEN conjunct1]
  have b: "xmul (xsub (xdiv (Fin 4) NaN) (Fin 1)) (Fin 100) = NaN"
    by (simp add: ops)
  from m1 a m0 b show ?thesis
    by blast
qed

text \<open>
  The claim as stated fails for a zero \<open>prev_value\<close>: the division is performed, and
  after the quotes 0,0 and 5,0 the second row has \<open>prev_value\<close> 0 and a
  \<open>pct_change_day\<close> of plus infinity, not an absent one.
\<close>

theorem zero_divisor_counterexample:
  "main (sample_env (always [quote_item ''02/11/2026'' ''0,0'', quote_item ''03/11/2026'' ''5,0'']))
     (default_args\<lparr>moedas := ''USD''\<rparr>) =
     \<lparr>effects =
        [Get \<lparr>codigo = 10813, dataInicial = 739193, dataFinal = 739923, timeout = 20\<rparr>,
         Makedirs ''data'',
         ToCsv ''data/cotacoes.csv'' ''utf-8''
           \<lparr>columns = [''date'', ''currency'', ''value_brl'', ''prev_value'', ''pct_change_day''],
            body =
              [\<lparr>date = 739922, currency = ''USD'', value_brl = Fin 0,
                 prev_value = NaN, pct_change_day = NaN\<rparr>,
               \<lparr>date = 739923, currency = ''USD'', value_brl = Fin 5,
                 prev_value = Fin 0, pct_change_day = PInf\<rparr>]\<rparr>,
         Print (OkLinhas 2 ''data/cotacoes.csv'')],
      ending = Finished\<rparr>
   \<and> PInf \<noteq> nan (sample_env
        (always [quote_item ''02/11/2026'' ''0,0'', quote_item ''03/11/2026'' ''5,0'']))"
  by (simp add: run_defs table_defs)

section \<open>The export\<close>

lemma transform_columns:
  "columns (transform env rows) =
     [''date'', ''currency'', ''value_brl'', ''prev_value'', ''pct_change_day'']"
  by (simp add: transform_def set_column_def Let_def)

lemma dirname_Nil_iff: "dirname p = [] \<longleftrightarrow> CHR ''/'' \<notin> set p"
proof -
  define head where "head = rev (dropWhile (\<lambda>c. c \<noteq> CHR ''/'') (rev p))"
  have d: "dirname p =
      (if head \<noteq> [] \<and> \<not> list_all (\<lambda>c. c = CHR ''/'') head
       then rev (dropWhile (\<lambda>c. c = CHR ''/'') (rev head)) else head)"
    unfolding dirname_def head_def Let_def ..
  have "head = [] \<longleftrightarrow> (\<forall>c \<in> set (rev p). c \<noteq> CHR ''/'')"
    unfolding head_def rev_is_Nil_conv dropWhile_eq_Nil_conv ..
  then have h: "head = [] \<longleftrightarrow> CHR ''/'' \<notin> set p"
    by (simp only: set_rev) blast
  show ?thesis
  proof (cases "head \<noteq> [] \<and> \<not> list_all (\<lambda>c. c = CHR ''/'') head")
    case True
    then have "\<not> (\<forall>c \<in> set (rev head). c = CHR ''/'')"
      by (simp only: set_rev list_all_iff) blast
    then have "dropWhile (\<lambda>c. c = CHR ''/'') (rev head) \<noteq> []"
      by (simp only: dropWhile_eq_Nil_conv) blast
    then have "dirname p \<noteq> []"
      using True by (simp add: d)
    with True h show ?thesis
      by blast
  next
    case False
    then have "dirname p = head"
      by (simp only: d if_False)
    with h show ?thesis
      by (simp only:)
  qed
qed

text \<open>
  For an output path with a directory part the export creates the directory, then
  writes the CSV at exactly the output path, in UTF-8, and the table has the five
  columns in the order of \<open>transform_columns\<close>. The spreadsheet, when asked for,
  follows the CSV unless \<^verbatim>\<open>to_excel\<close> raises.
\<close>

lemma export_with_directory:
  assumes "CHR ''/'' \<in> set (out a)"
  shows "\<exists>rest. effects (export env a pre df) =
      pre @ [Makedirs (dirname (out a)), ToCsv (out a) ''utf-8'' df] @ rest"
    and "excel a \<Longrightarrow> to_excel env (str_replace ''.csv'' ''.xlsx'' (out a)) = None \<Longrightarrow>
      export env a pre df =
        \<lparr>effects = pre @ [Makedirs (dirname (out a)), ToCsv (out a) ''utf-8'' df,
                         ToExcel (str_replace ''.csv'' ''.xlsx'' (out a)) df,
                         Print (OkLinhas (length (body df)) (out a))],
         ending = Finished\<rparr>"
    and "excel a \<Longrightarrow> to_excel env (str_replace ''.csv'' ''.xlsx'' (out a)) = Some e \<Longrightarrow>
      export env a pre df =
        \<lparr>effects = pre @ [Makedirs (dirname (out a)), ToCsv (out a) ''utf-8'' df],
         ending = Uncaught e\<rparr>"
    and "\<not> excel a \<Longrightarrow>
      export env a pre df =
        \<lparr>effects = pre @ [Makedirs (dirname (out a)), ToCsv (out a) ''utf-8'' df,
                         Print (OkLinhas (length (body df)) (out a))],
         ending = Finished\<rparr>"
  using assms
  by (simp_all add: export_def makedirs_def dirname_Nil_iff split: option.splits)

lemma export_bare_filename:
  assumes "CHR ''/'' \<notin> set (out a)"
  shows "export env a pre df = \<lparr>effects = pre, ending = Uncaught FileNotFoundError\<rparr>"
  using assms by (simp add: export_def makedirs_def dirname_Nil_iff)

text \<open>
  C7: the CSV is written at exactly the configured output path in UTF-8 with the
  columns date, currency, value_brl, prev_value, pct_change_day, after the missing
  parent directories are created, also for a bare file name. The code does not do
  this for a bare file name: \<^verbatim>\<open>os.path.dirname\<close> of \<^verbatim>\<open>cotacoes.csv\<close> is the empty string,
  \<^verbatim>\<open>os.makedirs\<close> raises \<^verbatim>\<open>FileNotFoundError\<close> on it, and the run ends there with
  nothing written.
\<close>

theorem bare_filename_raises:
  "dirname ''cotacoes.csv'' = []
   \<and> main (sample_env (always [quote_item ''03/11/2026'' ''5,0'']))
       (default_args\<lparr>moedas := ''USD'', out := ''cotacoes.csv''\<rparr>) =
       \<lparr>effects =
          [Get \<lparr>codigo = 10813, dataInicial = 739193, dataFinal = 739923, timeout = 20\<rparr>],
        ending = Uncaught FileNotFoundError\<rparr>"
  by (simp add: run_defs)

text \<open>The default output path gives the spreadsheet path one expects.\<close>

lemma default_xlsx_path: "str_replace ''.csv'' ''.xlsx'' ''data/cotacoes.csv'' = ''data/cotacoes.xlsx''"
  by (simp add: str_replace.simps startswith_def)

lemma bak_xlsx_path:
  "str_replace ''.csv'' ''.xlsx'' ''data/rates.csv.bak.csv'' = ''data/rates.xlsx.bak.xlsx''"
  by (simp add: str_replace.simps startswith_def)

text \<open>
  C8: with the spreadsheet flag set, the spreadsheet goes to the CSV path with its
  trailing extension \<^verbatim>\<open>.csv\<close> replaced by \<^verbatim>\<open>.xlsx\<close>, and only the extension. The
  code replaces every occurrence of \<^verbatim>\<open>.csv\<close> in the path: for
  \<^verbatim>\<open>data/rates.csv.bak.csv\<close> it writes \<^verbatim>\<open>data/rates.xlsx.bak.xlsx\<close>, not
  \<^verbatim>\<open>data/rates.csv.bak.xlsx\<close>.
\<close>

theorem xlsx_path_replaces_every_csv:
  "main (sample_env (always [quote_item ''03/11/2026'' ''5,0'']))
       (default_args\<lparr>moedas := ''USD'', out := ''data/rates.csv.bak.csv'', excel := True\<rparr>) =
       \<lparr>effects =
          [Get \<lparr>codigo = 10813, dataInicial = 739193, dataFinal = 739923, timeout = 20\<rparr>,
           Makedirs ''data'',
           ToCsv ''data/rates.csv.bak.csv'' ''utf-8''
             \<lparr>columns = [''date'', ''currency'', ''value_brl'', ''prev_value'', ''pct_change_day''],
              body =
                [\<lparr>date = 739923, currency = ''USD'', value_brl = Fin 5,
                   prev_value = NaN, pct_change_day = NaN\<rparr>]\<rparr>,
           ToExcel ''data/rates.xlsx.bak.xlsx''
             \<lparr>columns = [''date'', ''currency'', ''value_brl'', ''prev_value'', ''pct_change_day''],
              body =
                [\<lparr>date = 739923, currency = ''USD'', value_brl = Fin 5,
                   prev_value = NaN, pct_change_day = NaN\<rparr>]\<rparr>,
           Print (OkLinhas 1 ''data/rates.csv.bak.csv'')],
        ending = Finished\<rparr>"
  by (simp add: run_defs table_defs bak_xlsx_path endswith_def startswith_def)

section \<open>The currency list\<close>








end
